theory Spec2Isabelle
  imports Complex_Main
begin

section \<open>Failures\<close>

text \<open>
  Every \<open>throw\<close> of the sources is a value of this type.
  \<open>up.fail(message)\<close> throws a plain error carrying the message,
  \<open>@notApplicable()\<close> and \<open>up.error.aborted(message)\<close> build the two failure kinds
  of the change classes.
\<close>

datatype error = Failure string | NotApplicable | Aborted string

section \<open>up.Rect\<close>

text \<open>
  Modelled from the spec: the class \<open>up.Rect\<close> (its file is not part of the sources):
  "axis-aligned rectangle value type (left, top, width, height, derived bottom/right)".
  JavaScript numbers are idealised as real numbers: sums and differences are exact
  here and rounded to binary64 in the program. The properties of the reveal computation
  below rest on comparisons of the computed numbers and on the monotonicity of addition
  and subtraction, which rounding keeps, and not on identities such as
  \<open>(a + d) + (h - d) = a + h\<close>, which it does not. The field \<open>top\<close> is written
  \<open>top_px\<close>, since \<open>top\<close> is the greatest element of a lattice in HOL.
\<close>

record Rect =
  left :: real
  top_px :: real
  width :: real
  height :: real

definition bottom :: "Rect \<Rightarrow> real" where
  "bottom r = top_px r + height r"

definition right :: "Rect \<Rightarrow> real" where
  "right r = left r + width r"

section \<open>up.RevealMotion (reveal\_motion.js)\<close>

text \<open>
  What the reveal computation reads of a DOM element: its bounding rectangle
  (\<open>up.Rect.fromElement\<close>) and whether it is visible (\<open>e.isVisible\<close>).
\<close>

record element =
  fromElement :: Rect
  isVisible :: bool

text \<open>
  The viewport: whether it is the root viewport (\<open>up.viewport.isRoot\<close>), the size of the
  usable screen area (\<open>up.viewport.rootWidth()\<close>, \<open>rootHeight()\<close>), its own bounding
  rectangle and its current \<open>scrollTop\<close>.
\<close>

record viewport =
  isRoot :: bool
  rootWidth :: real
  rootHeight :: real
  viewportElement :: element
  scrollTop :: real

text \<open>
  The \<open>max\<close> option is falsy, a number or a function of the element
  (\<open>u.evalOption\<close> calls a function and returns everything else as it is).
\<close>

datatype maxOption = MaxFalsy | MaxNumber real | MaxFunction "element \<Rightarrow> real"

text \<open>
  The fields set by the constructor. \<open>snap\<close> is \<open>Some s\<close> when \<open>u.isNumber\<close> holds
  of the resolved option and \<open>None\<close> otherwise (\<open>false\<close>, \<open>undefined\<close>);
  \<open>alignTop\<close> is the truth value of \<open>this._top\<close>. \<open>topObstructions\<close> and
  \<open>bottomObstructions\<close> are the elements that \<open>up.fragment.all\<close> finds for the
  configured fixed-top and fixed-bottom selectors in the layer of the viewport.
\<close>

record RevealMotion =
  element :: element
  viewport :: viewport
  snap :: "real option"
  padding :: real
  alignTop :: bool
  maxOpt :: maxOption
  topObstructions :: "element list"
  bottomObstructions :: "element list"

text \<open>What \<open>start\<close> leaves behind: the offset it computed and the \<open>scrollTo\<close> call, if any.\<close>

record RevealOutcome =
  newScrollTop :: real
  scrollTo :: "real option"

definition getViewportRect :: "viewport \<Rightarrow> Rect" where
  "getViewportRect vp =
     (if isRoot vp
      then \<lparr>left = 0, top_px = 0, width = rootWidth vp, height = rootHeight vp\<rparr>
      else fromElement (viewportElement vp))"

text \<open>
  Lines 25 to 28 of \<open>start\<close>: the cap on the height of the element's rectangle.
  \<open>if (this._max)\<close> holds of a function and of a number other than 0;
  \<open>u.evalOption\<close> is not called on a falsy value.
\<close>

definition evalOption :: "maxOption \<Rightarrow> element \<Rightarrow> real" where
  "evalOption v el = (case v of MaxFunction f \<Rightarrow> f el | MaxNumber n \<Rightarrow> n | MaxFalsy \<Rightarrow> 0)"

definition truthy :: "maxOption \<Rightarrow> bool" where
  "truthy v = (case v of MaxFalsy \<Rightarrow> False | MaxNumber n \<Rightarrow> n \<noteq> 0 | MaxFunction f \<Rightarrow> True)"

definition applyMax :: "RevealMotion \<Rightarrow> Rect \<Rightarrow> Rect" where
  "applyMax rm elementRect =
     (if truthy (maxOpt rm)
      then (let maxPixels = evalOption (maxOpt rm) (element rm)
            in elementRect\<lparr>height := min (height elementRect) maxPixels\<rparr>)
      else elementRect)"

definition addPadding :: "RevealMotion \<Rightarrow> Rect \<Rightarrow> Rect" where
  "addPadding rm elementRect =
     elementRect\<lparr>top_px := top_px elementRect - padding rm,
                 height := height elementRect + 2 * padding rm\<rparr>"

definition selectObstructions :: "element list \<Rightarrow> element list" where
  "selectObstructions elements = filter isVisible elements"

text \<open>
  The two loops of \<open>_substractObstructions\<close>, each over the visible obstructions:
  the body of a loop is a function of the obstruction and the viewport's rectangle so far.
\<close>

definition substractTopObstruction :: "element \<Rightarrow> Rect \<Rightarrow> Rect" where
  "substractTopObstruction obstruction viewportRect =
     (let obstructionRect = fromElement obstruction;
          diff = bottom obstructionRect - top_px viewportRect
      in if diff > 0
         then viewportRect\<lparr>top_px := top_px viewportRect + diff,
                           height := height viewportRect - diff\<rparr>
         else viewportRect)"

definition substractBottomObstruction :: "element \<Rightarrow> Rect \<Rightarrow> Rect" where
  "substractBottomObstruction obstruction viewportRect =
     (let obstructionRect = fromElement obstruction;
          diff = bottom viewportRect - top_px obstructionRect
      in if diff > 0
         then viewportRect\<lparr>height := height viewportRect - diff\<rparr>
         else viewportRect)"

fun substractTop :: "element list \<Rightarrow> Rect \<Rightarrow> Rect" where
  "substractTop [] viewportRect = viewportRect"
| "substractTop (obstruction # rest) viewportRect =
     substractTop rest (substractTopObstruction obstruction viewportRect)"

fun substractBottom :: "element list \<Rightarrow> Rect \<Rightarrow> Rect" where
  "substractBottom [] viewportRect = viewportRect"
| "substractBottom (obstruction # rest) viewportRect =
     substractBottom rest (substractBottomObstruction obstruction viewportRect)"

definition substractObstructions :: "RevealMotion \<Rightarrow> Rect \<Rightarrow> Rect" where
  "substractObstructions rm viewportRect =
     substractBottom (selectObstructions (bottomObstructions rm))
       (substractTop (selectObstructions (topObstructions rm)) viewportRect)"

text \<open>Lines 38 to 59 of \<open>start\<close>: the offset before the snap rule.\<close>

definition decideScrollTop :: "RevealMotion \<Rightarrow> Rect \<Rightarrow> Rect \<Rightarrow> real \<Rightarrow> real" where
  "decideScrollTop rm elementRect viewportRect originalScrollTop =
     (if alignTop rm \<or> height elementRect > height viewportRect
      then originalScrollTop + (top_px elementRect - top_px viewportRect)
      else if top_px elementRect < top_px viewportRect
      then originalScrollTop - (top_px viewportRect - top_px elementRect)
      else if bottom elementRect > bottom viewportRect
      then originalScrollTop + (bottom elementRect - bottom viewportRect)
      else originalScrollTop)"

text \<open>Lines 61 to 63 of \<open>start\<close>: the snap rule.\<close>

definition applySnap :: "RevealMotion \<Rightarrow> Rect \<Rightarrow> Rect \<Rightarrow> real \<Rightarrow> real" where
  "applySnap rm elementRect viewportRect newScrollTop' =
     (case snap rm of
        Some s \<Rightarrow>
          (if newScrollTop' < s \<and> top_px elementRect < 0.5 * height viewportRect
           then 0 else newScrollTop')
      | None \<Rightarrow> newScrollTop')"

text \<open>
  \<open>start\<close>. The result is the failure that \<open>up.fail\<close> throws, or the offset computed
  together with the \<open>scrollTo\<close> call, which is made only for an offset that differs
  from the current one. (The methods \<open>_getViewportRect\<close>, \<open>_addPadding\<close>,
  \<open>_selectObstructions\<close> and \<open>_substractObstructions\<close> are written without the
  underscore.)
\<close>

definition start :: "RevealMotion \<Rightarrow> error + RevealOutcome" where
  "start rm =
     (let viewportRect = getViewportRect (viewport rm);
          elementRect = fromElement (element rm);
          elementRect = applyMax rm elementRect;
          elementRect = addPadding rm elementRect;
          viewportRect = substractObstructions rm viewportRect
      in if height viewportRect < 0
         then Inl (Failure ''Viewport has no visible area'')
         else
           (let originalScrollTop = scrollTop (viewport rm);
                newScrollTop' = decideScrollTop rm elementRect viewportRect originalScrollTop;
                newScrollTop' = applySnap rm elementRect viewportRect newScrollTop'
            in Inr \<lparr>newScrollTop = newScrollTop',
                    scrollTo = (if newScrollTop' \<noteq> originalScrollTop
                                then Some newScrollTop' else None)\<rparr>))"

text \<open>
  The values that \<open>start\<close> holds when it reaches line 33: the capped and padded
  rectangle of the element and the viewport's rectangle less the obstructions; and the
  offset that it has computed when it reaches the snap rule (line 61).
\<close>

definition paddedElementRect :: "RevealMotion \<Rightarrow> Rect" where
  "paddedElementRect rm = addPadding rm (applyMax rm (fromElement (element rm)))"

definition reducedViewportRect :: "RevealMotion \<Rightarrow> Rect" where
  "reducedViewportRect rm = substractObstructions rm (getViewportRect (viewport rm))"

definition rawScrollTop :: "RevealMotion \<Rightarrow> real" where
  "rawScrollTop rm =
     decideScrollTop rm (paddedElementRect rm) (reducedViewportRect rm) (scrollTop (viewport rm))"

section \<open>The DOM\<close>

text \<open>
  The browser's DOM and the helpers of \<open>up.element\<close> and \<open>up.HTMLWrapper\<close> are not
  part of the sources. They are parameters of the model: \<open>'n\<close> is the type of DOM nodes
  (documents, elements, text nodes) and a \<open>dom\<close> holds the operations that the code calls.
  A parser that returns \<open>undefined\<close> or \<open>null\<close> returns \<open>None\<close>.
  \<open>setInnerHTML n html\<close> is the node \<open>n\<close> after \<open>n.innerHTML = html\<close> and
  \<open>appendChild n c\<close> the node \<open>n\<close> after \<open>n.appendChild(c)\<close>.
\<close>

datatype HTMLWrapper = HTMLWrapper string

record 'n dom =
  createDocumentFromHTML :: "string \<Rightarrow> 'n option"
  createFromHTML :: "string \<Rightarrow> 'n option"
  createFromSelector :: "string \<Rightarrow> 'n"
  createElement :: "string \<Rightarrow> 'n"
  setInnerHTML :: "'n \<Rightarrow> string \<Rightarrow> 'n"
  appendChild :: "'n \<Rightarrow> 'n \<Rightarrow> 'n"
  subtree :: "'n \<Rightarrow> string \<Rightarrow> 'n list"
  querySelector :: "'n \<Rightarrow> string \<Rightarrow> 'n option"
  textContent :: "'n \<Rightarrow> string"
  wrap :: "HTMLWrapper \<Rightarrow> string \<Rightarrow> string"
  strip :: "HTMLWrapper \<Rightarrow> string \<Rightarrow> string"
  unwrap :: "HTMLWrapper \<Rightarrow> 'n \<Rightarrow> 'n"

section \<open>up.ResponseDoc (response\_doc.coffee)\<close>

text \<open>
  A payload is markup (a string) or a node that has been parsed already; an option that
  was not passed is \<open>None\<close>.
\<close>

datatype 'n payload = Html string | Node 'n

record 'n options =
  document :: "'n payload option"
  fragment :: "'n payload option"
  content :: "'n payload option"
  target :: "string option"

text \<open>
  The fields of a response document. \<open>root\<close> is written \<open>root_node\<close> (\<open>root\<close> is the
  n-th root of a real number in HOL). \<open>titleParsed\<close> is \<open>undefined\<close>, hence falsy, until
  \<open>getTitle\<close> sets it. \<open>rootQueries\<close> is not a field of the class: it counts the calls of
  \<open>@root.querySelector\<close>, so that a property can speak about them.
\<close>

record 'n ResponseDoc =
  root_node :: 'n
  title :: "string option"
  titleParsed :: bool
  rootQueries :: nat

definition noscriptWrapper :: HTMLWrapper where
  "noscriptWrapper = HTMLWrapper ''noscript''"

definition scriptStripper :: HTMLWrapper where
  "scriptStripper = HTMLWrapper ''script''"

definition wrapHTML :: "'n dom \<Rightarrow> string \<Rightarrow> string" where
  "wrapHTML d html =
     (let html = wrap d noscriptWrapper html;
          html = strip d scriptStripper html
      in html)"

definition parse :: "'n dom \<Rightarrow> 'n payload option \<Rightarrow> (string \<Rightarrow> 'n option) \<Rightarrow> 'n option" where
  "parse d value parseFn =
     (case value of
        Some (Html html) \<Rightarrow> parseFn (wrapHTML d html)
      | Some (Node n) \<Rightarrow> Some n
      | None \<Rightarrow> None)"

definition parseDocument :: "'n dom \<Rightarrow> 'n options \<Rightarrow> 'n option" where
  "parseDocument d opts = parse d (document opts) (createDocumentFromHTML d)"

definition parseFragment :: "'n dom \<Rightarrow> 'n options \<Rightarrow> 'n option" where
  "parseFragment d opts = parse d (fragment opts) (createFromHTML d)"

text \<open>
  \<open>options.content || ''\<close> replaces a missing content by the empty string (and the empty
  string, which is falsy, by itself). \<open>options.target || up.fail(...)\<close> fails for a
  target that is missing or the empty string.
\<close>

definition parseContent :: "'n dom \<Rightarrow> 'n options \<Rightarrow> error + 'n" where
  "parseContent d opts =
     (let content' = (case content opts of None \<Rightarrow> Html [] | Some c \<Rightarrow> c)
      in case target opts of
           None \<Rightarrow> Inl (Failure ''must pass a { target } when passing { content }'')
         | Some target' \<Rightarrow>
             if target' = []
             then Inl (Failure ''must pass a { target } when passing { content }'')
             else
               (let matchingElement = createFromSelector d target'
                in case content' of
                     Html html \<Rightarrow> Inr (setInnerHTML d matchingElement (wrapHTML d html))
                   | Node n \<Rightarrow> Inr (appendChild d matchingElement n)))"

text \<open>
  The constructor: \<open>parseDocument(options) || parseFragment(options) || parseContent(options)\<close>
  evaluates a later path only when the earlier ones gave nothing. \<open>newDoc r\<close> is the
  object with the root \<open>r\<close> and no other field set.
\<close>

definition newDoc :: "'n \<Rightarrow> 'n ResponseDoc" where
  "newDoc r = \<lparr>root_node = r, title = None, titleParsed = False, rootQueries = 0\<rparr>"

definition constructor :: "'n dom \<Rightarrow> 'n options \<Rightarrow> error + 'n ResponseDoc" where
  "constructor d opts =
     (case parseDocument d opts of
        Some r \<Rightarrow> Inr (newDoc r)
      | None \<Rightarrow>
          (case parseFragment d opts of
             Some r \<Rightarrow> Inr (newDoc r)
           | None \<Rightarrow>
               (case parseContent d opts of
                  Inl e \<Rightarrow> Inl e
                | Inr r \<Rightarrow> Inr (newDoc r))))"

definition getTitle :: "'n dom \<Rightarrow> 'n ResponseDoc \<Rightarrow> string option \<times> 'n ResponseDoc" where
  "getTitle d rd =
     (if \<not> titleParsed rd
      then (let t = map_option (textContent d) (querySelector d (root_node rd) ''head title'');
                rd' = rd\<lparr>title := t, titleParsed := True,
                        rootQueries := Suc (rootQueries rd)\<rparr>
            in (title rd', rd'))
      else (title rd, rd))"

text \<open>Calls of \<open>getTitle\<close> one after the other, each on the DOM as it is at that time.\<close>

fun getTitles :: "'n dom list \<Rightarrow> 'n ResponseDoc \<Rightarrow> string option list \<times> 'n ResponseDoc" where
  "getTitles [] rd = ([], rd)"
| "getTitles (d # ds) rd =
     (let (t, rd') = getTitle d rd;
          (ts, rd'') = getTitles ds rd'
      in (t # ts, rd''))"

definition select :: "'n dom \<Rightarrow> 'n ResponseDoc \<Rightarrow> string \<Rightarrow> 'n option" where
  "select d rd selector =
     (case subtree d (root_node rd) selector of [] \<Rightarrow> None | first # _ \<Rightarrow> Some first)"

definition finalizeElement :: "'n dom \<Rightarrow> 'n \<Rightarrow> 'n" where
  "finalizeElement d el = unwrap d noscriptWrapper el"

section \<open>up.Change.OpenLayer\<close>

text \<open>
  Modelled from the spec: the class \<open>up.Layer\<close> (not part of the sources), "an isolated
  content scope" with a mode, a "parent reference (back-reference only)", which the
  root layer does not have, and a \<open>historyVisible\<close> tri-state. Layers are told apart
  by \<open>layerId\<close>. \<open>opening_flag\<close> is the field \<open>opening\<close> that \<open>execute\<close> clears
  (\<open>opening\<close> is a keyword of Isabelle).
\<close>

datatype historyVisible = Auto | Visible bool

record Layer =
  layerId :: nat
  mode :: string
  parent :: "nat option"
  opening_flag :: bool
  historyVisible :: historyVisible

text \<open>
  The calls that \<open>execute\<close> makes on its collaborators, in the order in which it makes
  them. The list is not a value of the program: it records the effects, so that a
  property can say which of them happened and in which order.
\<close>

datatype 'n effect =
    CreateElement string
  | Select string
  | Puts string
  | Emit string
  | Peel nat
  | Push nat
  | CreateElements 'n
  | SetupHandlers
  | SaveHistory "nat option"
  | UpdateHistory
  | SetSource 'n "string option"
  | FinalizeElement 'n
  | Hello nat
  | HandleLayerChangeRequests
  | ProcessScroll "string option"
  | StartOpenAnimation
  | EmitOnLayer string

text \<open>
  The shared state: \<open>stack\<close> is \<open>up.layer.stack\<close>, bottom layer first; \<open>closing\<close> holds
  the layers whose closing sequence has begun; \<open>effects\<close> is the record of calls.
\<close>

record 'n world =
  stack :: "Layer list"
  closing :: "nat list"
  effects :: "'n effect list"

text \<open>
  The fields of the change. \<open>@target\<close>, \<open>@mode\<close> and \<open>@options.title\<close> are written
  \<open>target_opt\<close>, \<open>mode_opt\<close> and \<open>title_opt\<close>, since \<open>target\<close>, \<open>mode\<close> and \<open>title\<close>
  are fields of other records here; \<open>history_opt\<close> is \<open>@options.history\<close>.
\<close>

record 'n OpenLayer =
  target_opt :: string
  mode_opt :: string
  origin :: "'n option"
  baseLayer :: nat
  source :: "string option"
  focus :: "string option"
  scroll :: "string option"
  title_opt :: "string option"
  history_opt :: bool

text \<open>
  What the collaborators of one run answer. The event subsystem "reports whether a
  listener cancelled the event" (\<open>openDefaultPrevented\<close>); \<open>baseLayerIsClosed\<close> is the
  answer of \<open>@baseLayer.isClosed()\<close>. \<open>@handleLayerChangeRequests()\<close> and
  \<open>@abortWhenLayerClosed()\<close> belong to the superclass \<open>up.Change.Addition\<close>, which is
  not part of the sources: each either returns (\<open>None\<close>) or throws an
  \<open>up.error.aborted\<close> with some message. \<open>build\<close> is \<open>up.layer.build\<close> on the merged
  options, \<open>improveHistoryValue\<close> the method of the superclass and \<open>hasAutoHistory\<close> the
  function of \<open>up.fragment\<close>.
\<close>

record 'n answers =
  baseLayerIsClosed :: bool
  openDefaultPrevented :: bool
  layerChangeRequestsAbort :: "string option"
  layerClosedAfterOpened :: "string option"
  build :: "'n OpenLayer \<Rightarrow> Layer"
  improveHistoryValue :: "string option \<Rightarrow> string option \<Rightarrow> string option"
  hasAutoHistory :: "'n \<Rightarrow> bool"

record 'n RenderResult =
  layer :: Layer
  fragments :: "'n list"

definition did :: "'n effect \<Rightarrow> 'n world \<Rightarrow> 'n world" where
  "did e w = w\<lparr>effects := effects w @ [e]\<rparr>"

text \<open>The calls that a run has added to the record.\<close>

definition newEffects :: "'n world \<Rightarrow> 'n world \<Rightarrow> 'n effect list" where
  "newEffects w w' = drop (length (effects w)) (effects w')"

text \<open>
  Modelled from the spec: \<open>up.Layer.peel\<close> (not part of the sources), "Peel: if the base
  layer already has a live child, begin closing it (enqueued, not waited on)". The
  children of the base layer are the layers of the stack whose parent it is; a child is
  live until its closing sequence has begun. Closing is not waited on, so the stack
  keeps the child.
\<close>

definition liveChildren :: "nat \<Rightarrow> 'n world \<Rightarrow> Layer list" where
  "liveChildren base w =
     filter (\<lambda>l. parent l = Some base \<and> layerId l \<notin> set (closing w)) (stack w)"

definition peel :: "nat \<Rightarrow> 'n world \<Rightarrow> 'n world" where
  "peel base w =
     (did (Peel base) w)\<lparr>closing := closing w @ map layerId (liveChildren base w)\<rparr>"

text \<open>
  Modelled from the spec: \<open>up.layer.stack.push\<close> (not part of the sources), "Push the new
  layer onto the stack synchronously": the layer becomes the top of the stack.
\<close>

definition push :: "Layer \<Rightarrow> 'n world \<Rightarrow> 'n world" where
  "push l w = (did (Push (layerId l)) w)\<lparr>stack := stack w @ [l]\<rparr>"

text \<open>
  The layer that \<open>execute\<close> has pushed is the object that it goes on to change
  (\<open>historyVisible\<close>, \<open>opening\<close>): the top of the stack changes with it.
\<close>

definition updateTop :: "Layer \<Rightarrow> 'n world \<Rightarrow> 'n world" where
  "updateTop l w = w\<lparr>stack := butlast (stack w) @ [l]\<rparr>"

definition buildLayer :: "'n answers \<Rightarrow> 'n OpenLayer \<Rightarrow> Layer" where
  "buildLayer a ch = (build a ch)\<lparr>opening_flag := True\<rparr>"

definition handleHistory ::
  "'n answers \<Rightarrow> 'n OpenLayer \<Rightarrow> Layer \<Rightarrow> 'n \<Rightarrow> 'n world \<Rightarrow> 'n OpenLayer \<times> Layer \<times> 'n world" where
  "handleHistory a ch l content' w =
     (let l = (if historyVisible l = Auto
               then l\<lparr>historyVisible := Visible (hasAutoHistory a content')\<rparr> else l);
          w = did (SaveHistory (parent l)) (updateTop l w);
          ch = ch\<lparr>history_opt := True\<rparr>;
          w = did UpdateHistory w
      in (ch, l, w))"

text \<open>Lines 40 to 43 of \<open>execute\<close>: the content of the new layer.\<close>

definition chooseContent ::
  "'n dom \<Rightarrow> 'n OpenLayer \<Rightarrow> 'n ResponseDoc \<Rightarrow> 'n world \<Rightarrow> 'n option \<times> 'n world" where
  "chooseContent d ch responseDoc w =
     (if target_opt ch = '':none''
      then (Some (createElement d ''up-none''), did (CreateElement ''up-none'') w)
      else (select d responseDoc (target_opt ch), did (Select (target_opt ch)) w))"

text \<open>
  \<open>execute\<close>, with the state passed along: the response document (which \<open>getTitle\<close>
  changes) and the world. The callback of \<open>startOpenAnimation().then\<close> runs after
  \<open>execute\<close> has returned and is not part of it.
\<close>

definition execute ::
  "'n dom \<Rightarrow> 'n answers \<Rightarrow> 'n OpenLayer \<Rightarrow> 'n ResponseDoc \<Rightarrow> 'n world
     \<Rightarrow> (error + 'n RenderResult) \<times> 'n ResponseDoc \<times> 'n world" where
  "execute d a ch responseDoc w =
     (let (content', w) = chooseContent d ch responseDoc w
      in case content' of
           None \<Rightarrow> (Inl NotApplicable, responseDoc, w)
         | Some content' \<Rightarrow>
             if baseLayerIsClosed a then (Inl NotApplicable, responseDoc, w)
             else
               (let w = did (Puts ''up.render()'') w;
                    (t, responseDoc) = getTitle d responseDoc;
                    ch = ch\<lparr>title_opt := improveHistoryValue a (title_opt ch) t\<rparr>;
                    l = buildLayer a ch;
                    w = did (Emit ''up:layer:open'') w
                in if openDefaultPrevented a
                   then (Inl (Aborted ''Open event was prevented''), responseDoc, w)
                   else
                     (let w = peel (baseLayer ch) w;
                          w = push l w;
                          w = did (CreateElements content') w;
                          w = did SetupHandlers w;
                          (ch, l, w) = handleHistory a ch l content' w;
                          w = did (SetSource content' (source ch)) w;
                          w = did (FinalizeElement content') w;
                          content' = finalizeElement d content';
                          w = did (Hello (layerId l)) w;
                          w = did HandleLayerChangeRequests w
                      in case layerChangeRequestsAbort a of
                           Some message \<Rightarrow> (Inl (Aborted message), responseDoc, w)
                         | None \<Rightarrow>
                             (let w = did (ProcessScroll (scroll ch)) w;
                                  w = did StartOpenAnimation w;
                                  l = l\<lparr>opening_flag := False\<rparr>;
                                  w = updateTop l w;
                                  w = did (EmitOnLayer ''up:layer:opened'') w
                              in case layerClosedAfterOpened a of
                                   Some message \<Rightarrow> (Inl (Aborted message), responseDoc, w)
                                 | None \<Rightarrow>
                                     (Inr \<lparr>layer = l, fragments = [content']\<rparr>,
                                      responseDoc, w)))))"

text \<open>
  The first call of a run, the calls that change the stack or start the closing of a
  layer, and the calls that find or make the content.
\<close>

definition firstEffect :: "'n OpenLayer \<Rightarrow> 'n effect" where
  "firstEffect ch =
     (if target_opt ch = '':none'' then CreateElement ''up-none'' else Select (target_opt ch))"

definition stackEffect :: "'n effect \<Rightarrow> bool" where
  "stackEffect e = (case e of Peel _ \<Rightarrow> True | Push _ \<Rightarrow> True | _ \<Rightarrow> False)"

definition contentEffect :: "'n effect \<Rightarrow> bool" where
  "contentEffect e = (case e of Select _ \<Rightarrow> True | CreateElement _ \<Rightarrow> True | _ \<Rightarrow> False)"

section \<open>Predicates of the properties\<close>


text \<open>
  A target selector was given: \<open>options.target\<close> is truthy, that is, present and not
  the empty string.
\<close>

definition targetGiven :: "'n options \<Rightarrow> bool" where
  "targetGiven opts = (case target opts of None \<Rightarrow> False | Some t \<Rightarrow> t \<noteq> [])"

text \<open>
  The payload that the constructor uses is a node: the document is one, or no document
  was passed and the fragment is one, or neither was passed and the content is one.
\<close>

definition nodePayload :: "'n options \<Rightarrow> bool" where
  "nodePayload opts =
     (case document opts of
        Some (Node _) \<Rightarrow> True
      | Some (Html _) \<Rightarrow> False
      | None \<Rightarrow>
          (case fragment opts of
             Some (Node _) \<Rightarrow> True
           | Some (Html _) \<Rightarrow> False
           | None \<Rightarrow> (case content opts of Some (Node _) \<Rightarrow> True | _ \<Rightarrow> False)))"

section \<open>Examples\<close>

text \<open>Example configurations: a root viewport of 800 pixels and elements in it.\<close>

definition box :: "real \<Rightarrow> real \<Rightarrow> element" where
  "box t h = \<lparr>fromElement = \<lparr>left = 0, top_px = t, width = 100, height = h\<rparr>, isVisible = True\<rparr>"

definition screen :: "real \<Rightarrow> real \<Rightarrow> viewport" where
  "screen h s = \<lparr>isRoot = True, rootWidth = 1000, rootHeight = h,
                 viewportElement = box 0 0, scrollTop = s\<rparr>"

text \<open>A viewport that is not the root: an element at \<open>t\<close> of height \<open>h\<close>.\<close>

definition pane :: "real \<Rightarrow> real \<Rightarrow> real \<Rightarrow> viewport" where
  "pane t h s = \<lparr>isRoot = False, rootWidth = 1000, rootHeight = 800,
                 viewportElement = box t h, scrollTop = s\<rparr>"

definition reveal :: "element \<Rightarrow> viewport \<Rightarrow> real option \<Rightarrow> bool \<Rightarrow> element list \<Rightarrow> RevealMotion" where
  "reveal el vp sn tp obs =
     \<lparr>element = el, viewport = vp, snap = sn, padding = 0, alignTop = tp,
      maxOpt = MaxFalsy, topObstructions = obs, bottomObstructions = []\<rparr>"

text \<open>
  An example DOM: nodes are trees, a selector is a tag name, markup is parsed to a text
  node, and the script stripper removes the markup of an empty script element.
\<close>

datatype node = ElementNode string "node list" | TextNode string

definition exampleDom :: "node dom" where
  "exampleDom =
     \<lparr>createDocumentFromHTML = (\<lambda>html. Some (ElementNode ''html'' [TextNode html])),
      createFromHTML =
        (\<lambda>html. if html = [] then None else Some (ElementNode ''div'' [TextNode html])),
      createFromSelector = (\<lambda>selector. ElementNode selector []),
      createElement = (\<lambda>tag. ElementNode tag []),
      setInnerHTML =
        (\<lambda>n html. case n of
           ElementNode tag _ \<Rightarrow> ElementNode tag (if html = [] then [] else [TextNode html])
         | TextNode text \<Rightarrow> TextNode text),
      appendChild =
        (\<lambda>n c. case n of
           ElementNode tag children \<Rightarrow> ElementNode tag (children @ [c])
         | TextNode text \<Rightarrow> TextNode text),
      subtree =
        (\<lambda>n selector. case n of
           ElementNode tag children \<Rightarrow>
             (if tag = selector then [n] else []) @
             filter (\<lambda>c. case c of ElementNode t _ \<Rightarrow> t = selector | TextNode _ \<Rightarrow> False)
               children
         | TextNode _ \<Rightarrow> []),
      querySelector = (\<lambda>n selector. None),
      textContent = (\<lambda>n. case n of TextNode text \<Rightarrow> text | ElementNode _ _ \<Rightarrow> []),
      wrap = (\<lambda>wrapper html. html),
      strip = (\<lambda>wrapper html. if html = ''<script></script>'' then [] else html),
      unwrap = (\<lambda>wrapper n. n)\<rparr>"

text \<open>
  An example run: a response document with a \<open>main\<close> element, and a stack of the root
  layer and a popup that is its child.
\<close>

definition exampleDoc :: "node ResponseDoc" where
  "exampleDoc = newDoc (ElementNode ''html'' [ElementNode ''main'' []])"

definition exampleAnswers :: "bool \<Rightarrow> bool \<Rightarrow> node answers" where
  "exampleAnswers isClosed prevented =
     \<lparr>baseLayerIsClosed = isClosed, openDefaultPrevented = prevented,
      layerChangeRequestsAbort = None, layerClosedAfterOpened = None,
      build = (\<lambda>ch. \<lparr>layerId = 2, mode = mode_opt ch, parent = Some (baseLayer ch),
                      opening_flag = True, historyVisible = Auto\<rparr>),
      improveHistoryValue =
        (\<lambda>existingValue newValue. case existingValue of Some v \<Rightarrow> Some v | None \<Rightarrow> newValue),
      hasAutoHistory = (\<lambda>n. True)\<rparr>"

definition exampleChange :: "string \<Rightarrow> node OpenLayer" where
  "exampleChange selector =
     \<lparr>target_opt = selector, mode_opt = ''modal'', origin = None, baseLayer = 0,
      source = None, focus = None, scroll = None, title_opt = None, history_opt = False\<rparr>"

definition exampleWorld :: "node world" where
  "exampleWorld =
     \<lparr>stack = [\<lparr>layerId = 0, mode = ''root'', parent = None, opening_flag = False,
                historyVisible = Visible True\<rparr>,
               \<lparr>layerId = 1, mode = ''popup'', parent = Some 0, opening_flag = False,
                historyVisible = Visible False\<rparr>],
      closing = [], effects = []\<rparr>"

section \<open>Properties of up.RevealMotion\<close>

lemmas reveal_defs =
  start_def reducedViewportRect_def paddedElementRect_def substractObstructions_def
  selectObstructions_def substractTopObstruction_def substractBottomObstruction_def
  getViewportRect_def addPadding_def applyMax_def truthy_def
  evalOption_def decideScrollTop_def applySnap_def bottom_def

lemmas example_defs = box_def screen_def pane_def reveal_def

text \<open>\<open>start\<close> in terms of the two rectangles and the offset before the snap rule.\<close>

lemma start_rects:
  "start rm =
     (if height (reducedViewportRect rm) < 0
      then Inl (Failure ''Viewport has no visible area'')
      else Inr \<lparr>newScrollTop =
                  applySnap rm (paddedElementRect rm) (reducedViewportRect rm) (rawScrollTop rm),
                scrollTo =
                  (if applySnap rm (paddedElementRect rm) (reducedViewportRect rm)
                        (rawScrollTop rm) \<noteq> scrollTop (viewport rm)
                   then Some (applySnap rm (paddedElementRect rm) (reducedViewportRect rm)
                                (rawScrollTop rm))
                   else None)\<rparr>)"
  by (simp add: start_def Let_def paddedElementRect_def reducedViewportRect_def
      rawScrollTop_def)

text \<open>
  C3. \<open>start\<close> fails exactly when the viewport's rectangle, after all visible top and
  bottom obstructions have been subtracted, has a strictly negative height. It then
  raises the failure "Viewport has no visible area" and returns no offset and no scroll
  call. The height is not clamped: a height of zero or more, zero included, gives a result.
\<close>

theorem start_fails_on_negative_height:
  "(height (reducedViewportRect rm) < 0 \<longrightarrow>
      start rm = Inl (Failure ''Viewport has no visible area'')) \<and>
   (height (reducedViewportRect rm) = 0 \<longrightarrow> (\<exists>out. start rm = Inr out)) \<and>
   ((\<exists>e. start rm = Inl e) \<longleftrightarrow> height (reducedViewportRect rm) < 0)"
  by (simp add: start_rects)

theorem start_fails_on_negative_height_witness:
  "height (reducedViewportRect (reveal (box 10 20) (screen 100 0) None False [box 0 150])) < 0 \<and>
   start (reveal (box 10 20) (screen 100 0) None False [box 0 150])
     = Inl (Failure ''Viewport has no visible area'') \<and>
   height (reducedViewportRect (reveal (box 10 20) (screen 100 0) None False [box 0 100])) = 0 \<and>
   (\<exists>out. start (reveal (box 10 20) (screen 100 0) None False [box 0 100]) = Inr out)"
proof -
  have neg: "height (reducedViewportRect (reveal (box 10 20) (screen 100 0) None False [box 0 150])) < 0"
    by (simp add: reveal_defs example_defs)
  have zero: "height (reducedViewportRect (reveal (box 10 20) (screen 100 0) None False [box 0 100])) = 0"
    by (simp add: reveal_defs example_defs)
  from neg zero
    start_fails_on_negative_height [of "reveal (box 10 20) (screen 100 0) None False [box 0 150]"]
    start_fails_on_negative_height [of "reveal (box 10 20) (screen 100 0) None False [box 0 100]"]
  show ?thesis by blast
qed

text \<open>
  C4, as amended. The snap rule. With a numeric snap threshold \<open>s\<close> and a viewport
  that has a visible area, \<open>start\<close> resolves to the offset 0 exactly when the offset it
  computed is strictly below \<open>s\<close> and the top coordinate of the element's padded
  rectangle is less than half the height of the viewport less its obstructions
  (\<open>elementRect.top < 0.5 * viewportRect.height\<close>, line 61); the viewport is then scrolled
  to 0 unless it is there already. In every other case the computed offset is left as it
  is. The test does not look at the top edge of the viewport: it is the same as "the
  element's top lies within the viewport's upper half" only for a viewport whose top
  edge is at 0. (The claim as stated, with the upper half of the viewport, fails for other
  viewports: see the counterexample below.) The witness has the threshold 50 with the
  offsets 10 and 1000.
\<close>

theorem snap_rule:
  assumes "snap rm = Some s" and "0 \<le> height (reducedViewportRect rm)"
  shows "(rawScrollTop rm < s \<and>
            top_px (paddedElementRect rm) < 0.5 * height (reducedViewportRect rm) \<longrightarrow>
          start rm = Inr \<lparr>newScrollTop = 0,
                          scrollTo = (if scrollTop (viewport rm) = 0 then None else Some 0)\<rparr>) \<and>
         (s \<le> rawScrollTop rm \<longrightarrow>
          start rm = Inr \<lparr>newScrollTop = rawScrollTop rm,
                          scrollTo = (if rawScrollTop rm = scrollTop (viewport rm) then None
                                      else Some (rawScrollTop rm))\<rparr>) \<and>
         (0.5 * height (reducedViewportRect rm) \<le> top_px (paddedElementRect rm) \<longrightarrow>
          start rm = Inr \<lparr>newScrollTop = rawScrollTop rm,
                          scrollTo = (if rawScrollTop rm = scrollTop (viewport rm) then None
                                      else Some (rawScrollTop rm))\<rparr>)"
proof -
  let ?e = "paddedElementRect rm"
  let ?v = "reducedViewportRect rm"
  have fires: "rawScrollTop rm < s \<and> top_px ?e < 0.5 * height ?v \<Longrightarrow>
               applySnap rm ?e ?v (rawScrollTop rm) = 0"
    using assms(1) by (simp add: applySnap_def)
  have above: "s \<le> rawScrollTop rm \<Longrightarrow> applySnap rm ?e ?v (rawScrollTop rm) = rawScrollTop rm"
    using assms(1) by (simp add: applySnap_def)
  have lower: "0.5 * height ?v \<le> top_px ?e \<Longrightarrow>
               applySnap rm ?e ?v (rawScrollTop rm) = rawScrollTop rm"
    using assms(1) by (simp add: applySnap_def)
  have st: "start rm = Inr \<lparr>newScrollTop = applySnap rm ?e ?v (rawScrollTop rm),
              scrollTo = (if applySnap rm ?e ?v (rawScrollTop rm) \<noteq> scrollTop (viewport rm)
                          then Some (applySnap rm ?e ?v (rawScrollTop rm)) else None)\<rparr>"
    using assms(2) by (simp add: start_rects)
  show ?thesis
  proof (intro conjI impI)
    assume "rawScrollTop rm < s \<and> top_px ?e < 0.5 * height ?v"
    then show "start rm = Inr \<lparr>newScrollTop = 0,
        scrollTo = (if scrollTop (viewport rm) = 0 then None else Some 0)\<rparr>"
      unfolding st by (simp add: fires)
  next
    assume "s \<le> rawScrollTop rm"
    then show "start rm = Inr \<lparr>newScrollTop = rawScrollTop rm,
        scrollTo = (if rawScrollTop rm = scrollTop (viewport rm) then None
                    else Some (rawScrollTop rm))\<rparr>"
      unfolding st by (simp add: above)
  next
    assume "0.5 * height ?v \<le> top_px ?e"
    then show "start rm = Inr \<lparr>newScrollTop = rawScrollTop rm,
        scrollTo = (if rawScrollTop rm = scrollTop (viewport rm) then None
                    else Some (rawScrollTop rm))\<rparr>"
      unfolding st by (simp add: lower)
  qed
qed

theorem snap_rule_witness:
  "snap (reveal (box 5 20) (screen 800 5) (Some 50) True []) = Some 50 \<and>
   rawScrollTop (reveal (box 5 20) (screen 800 5) (Some 50) True []) = 10 \<and>
   top_px (paddedElementRect (reveal (box 5 20) (screen 800 5) (Some 50) True []))
     < 0.5 * height (reducedViewportRect (reveal (box 5 20) (screen 800 5) (Some 50) True [])) \<and>
   start (reveal (box 5 20) (screen 800 5) (Some 50) True [])
     = Inr \<lparr>newScrollTop = 0, scrollTo = Some 0\<rparr> \<and>
   top_px (paddedElementRect (reveal (box 10 20) (screen 800 990) (Some 50) True []))
     < 0.5 * height (reducedViewportRect (reveal (box 10 20) (screen 800 990) (Some 50) True [])) \<and>
   rawScrollTop (reveal (box 10 20) (screen 800 990) (Some 50) True []) = 1000 \<and>
   start (reveal (box 10 20) (screen 800 990) (Some 50) True [])
     = Inr \<lparr>newScrollTop = 1000, scrollTo = Some 1000\<rparr>"
proof -
  let ?A = "reveal (box 5 20) (screen 800 5) (Some 50) True []"
  let ?B = "reveal (box 10 20) (screen 800 990) (Some 50) True []"
  have sA: "snap ?A = Some 50" and sB: "snap ?B = Some 50"
    by (simp_all add: example_defs)
  have hA: "0 \<le> height (reducedViewportRect ?A)" and hB: "0 \<le> height (reducedViewportRect ?B)"
    by (simp_all add: reveal_defs example_defs)
  have rA: "rawScrollTop ?A = 10" and rB: "rawScrollTop ?B = 1000"
    by (simp_all add: rawScrollTop_def reveal_defs example_defs)
  have uA: "top_px (paddedElementRect ?A) < 0.5 * height (reducedViewportRect ?A)"
    and uB: "top_px (paddedElementRect ?B) < 0.5 * height (reducedViewportRect ?B)"
    by (simp_all add: reveal_defs example_defs)
  have cA: "scrollTop (viewport ?A) = 5" and cB: "scrollTop (viewport ?B) = 990"
    by (simp_all add: example_defs)
  from snap_rule [OF sA hA] rA uA cA
  have A: "start ?A = Inr \<lparr>newScrollTop = 0, scrollTo = Some 0\<rparr>" by simp
  from snap_rule [OF sB hB] rB cB
  have B: "start ?B = Inr \<lparr>newScrollTop = 1000, scrollTo = Some 1000\<rparr>" by simp
  from sA rA uA A uB rB B show ?thesis by blast
qed

text \<open>
  The counterexample to C4 as stated: a viewport that is not the root, at 300 with the
  height 400, scrolled to 0, and an element at 350, which lies within the viewport's
  upper half (from 300 to 500), to be aligned at the top. The computed offset 50 is below
  the threshold 100, but 350 is not less than half the height, 200: \<open>start\<close> scrolls to
  50, not to 0.
\<close>

theorem snap_ignores_viewport_top_counterexample:
  "snap (reveal (box 350 20) (pane 300 400 0) (Some 100) True []) = Some 100 \<and>
   rawScrollTop (reveal (box 350 20) (pane 300 400 0) (Some 100) True []) = 50 \<and>
   (50::real) < 100 \<and>
   top_px (reducedViewportRect (reveal (box 350 20) (pane 300 400 0) (Some 100) True []))
     \<le> top_px (paddedElementRect (reveal (box 350 20) (pane 300 400 0) (Some 100) True [])) \<and>
   top_px (paddedElementRect (reveal (box 350 20) (pane 300 400 0) (Some 100) True []))
     < top_px (reducedViewportRect (reveal (box 350 20) (pane 300 400 0) (Some 100) True []))
       + 0.5 * height (reducedViewportRect (reveal (box 350 20) (pane 300 400 0) (Some 100) True [])) \<and>
   start (reveal (box 350 20) (pane 300 400 0) (Some 100) True [])
     = Inr \<lparr>newScrollTop = 50, scrollTo = Some 50\<rparr>"
  by (simp add: rawScrollTop_def reveal_defs example_defs)












text \<open>
  C6, as amended. Let the padded rectangle of the element lie fully inside the viewport
  less its obstructions (top not above the viewport's top, bottom not below its bottom,
  not taller than it), the viewport have a visible area, and align-top not be requested.
  Then \<open>start\<close> computes the current offset again and makes no scroll call exactly when
  the snap rule does not move the viewport: the current offset is 0 already, or there is
  no numeric snap threshold, or the current offset is not below the threshold, or the
  element's top is not below half the viewport's height. (The claim as stated, for every
  such element, fails when the snap rule applies: see the counterexample below.)
\<close>

theorem reveal_idempotent_unless_snap:
  assumes "\<not> alignTop rm"
    and "top_px (reducedViewportRect rm) \<le> top_px (paddedElementRect rm)"
    and "bottom (paddedElementRect rm) \<le> bottom (reducedViewportRect rm)"
    and "height (paddedElementRect rm) \<le> height (reducedViewportRect rm)"
    and "0 \<le> height (reducedViewportRect rm)"
  shows "start rm = Inr \<lparr>newScrollTop = scrollTop (viewport rm), scrollTo = None\<rparr> \<longleftrightarrow>
         (scrollTop (viewport rm) = 0 \<or>
          (case snap rm of None \<Rightarrow> True
           | Some s \<Rightarrow> s \<le> scrollTop (viewport rm) \<or>
               0.5 * height (reducedViewportRect rm) \<le> top_px (paddedElementRect rm)))"
proof -
  let ?s = "scrollTop (viewport rm)"
  let ?e = "paddedElementRect rm"
  let ?v = "reducedViewportRect rm"
  have raw: "decideScrollTop rm ?e ?v ?s = ?s"
    using assms(1-4) by (simp add: decideScrollTop_def)
  have st: "start rm = Inr \<lparr>newScrollTop = applySnap rm ?e ?v ?s,
              scrollTo = (if applySnap rm ?e ?v ?s \<noteq> ?s
                          then Some (applySnap rm ?e ?v ?s) else None)\<rparr>"
    using assms(5) raw by (simp add: start_rects rawScrollTop_def)
  show ?thesis
  proof (cases "snap rm")
    case None
    then have "applySnap rm ?e ?v ?s = ?s" by (simp add: applySnap_def)
    with st None show ?thesis by simp
  next
    case (Some t)
    define fires where "fires \<longleftrightarrow> ?s < t \<and> top_px ?e < 0.5 * height ?v"
    have ap: "applySnap rm ?e ?v ?s = (if fires then 0 else ?s)"
      unfolding applySnap_def fires_def using Some by simp
    have rhs: "(case snap rm of None \<Rightarrow> True
           | Some s \<Rightarrow> s \<le> ?s \<or> 0.5 * height ?v \<le> top_px ?e) \<longleftrightarrow> \<not> fires"
      unfolding fires_def using Some by (simp add: not_less)
    have lhs: "start rm = Inr \<lparr>newScrollTop = ?s, scrollTo = None\<rparr> \<longleftrightarrow> (fires \<longrightarrow> ?s = 0)"
      unfolding st ap by (cases fires) simp_all
    show ?thesis unfolding lhs rhs by blast
  qed
qed

theorem reveal_idempotent_unless_snap_witness:
  "\<not> alignTop (reveal (box 100 200) (screen 800 30) None False []) \<and>
   top_px (reducedViewportRect (reveal (box 100 200) (screen 800 30) None False []))
     \<le> top_px (paddedElementRect (reveal (box 100 200) (screen 800 30) None False [])) \<and>
   bottom (paddedElementRect (reveal (box 100 200) (screen 800 30) None False []))
     \<le> bottom (reducedViewportRect (reveal (box 100 200) (screen 800 30) None False [])) \<and>
   height (paddedElementRect (reveal (box 100 200) (screen 800 30) None False []))
     \<le> height (reducedViewportRect (reveal (box 100 200) (screen 800 30) None False [])) \<and>
   0 \<le> height (reducedViewportRect (reveal (box 100 200) (screen 800 30) None False [])) \<and>
   start (reveal (box 100 200) (screen 800 30) None False [])
     = Inr \<lparr>newScrollTop = 30, scrollTo = None\<rparr>"
proof -
  let ?A = "reveal (box 100 200) (screen 800 30) None False []"
  have a: "\<not> alignTop ?A" by (simp add: example_defs)
  have t: "top_px (reducedViewportRect ?A) \<le> top_px (paddedElementRect ?A)"
    by (simp add: reveal_defs example_defs)
  have b: "bottom (paddedElementRect ?A) \<le> bottom (reducedViewportRect ?A)"
    by (simp add: reveal_defs example_defs)
  have h: "height (paddedElementRect ?A) \<le> height (reducedViewportRect ?A)"
    by (simp add: reveal_defs example_defs)
  have v: "0 \<le> height (reducedViewportRect ?A)"
    by (simp add: reveal_defs example_defs)
  have c: "scrollTop (viewport ?A) = 30" and n: "snap ?A = None"
    by (simp_all add: example_defs)
  from reveal_idempotent_unless_snap [OF a t b h v] c n
  have "start ?A = Inr \<lparr>newScrollTop = 30, scrollTo = None\<rparr>" by simp
  with a t b h v show ?thesis by blast
qed

text \<open>
  The counterexample to C6 as stated: an element of 200 pixels at 100 lies fully inside a
  viewport of 800 pixels that is scrolled to 30. With the snap threshold 50 the offset
  30 is below the threshold and the element's top is in the upper half, so \<open>start\<close>
  scrolls the viewport to 0.
\<close>

theorem reveal_snaps_visible_element_counterexample:
  "\<not> alignTop (reveal (box 100 200) (screen 800 30) (Some 50) False []) \<and>
   top_px (reducedViewportRect (reveal (box 100 200) (screen 800 30) (Some 50) False []))
     \<le> top_px (paddedElementRect (reveal (box 100 200) (screen 800 30) (Some 50) False [])) \<and>
   bottom (paddedElementRect (reveal (box 100 200) (screen 800 30) (Some 50) False []))
     \<le> bottom (reducedViewportRect (reveal (box 100 200) (screen 800 30) (Some 50) False [])) \<and>
   height (paddedElementRect (reveal (box 100 200) (screen 800 30) (Some 50) False []))
     \<le> height (reducedViewportRect (reveal (box 100 200) (screen 800 30) (Some 50) False [])) \<and>
   scrollTop (viewport (reveal (box 100 200) (screen 800 30) (Some 50) False [])) = 30 \<and>
   start (reveal (box 100 200) (screen 800 30) (Some 50) False [])
     = Inr \<lparr>newScrollTop = 0, scrollTo = Some 0\<rparr>"
  by (simp add: reveal_defs example_defs)

section \<open>Evaluation of the examples\<close>

lemmas example_layer_defs = exampleDom_def exampleDoc_def exampleAnswers_def exampleChange_def
  exampleWorld_def newDoc_def

lemmas execute_defs = execute_def chooseContent_def select_def getTitle_def buildLayer_def
  did_def peel_def push_def updateTop_def handleHistory_def finalizeElement_def
  liveChildren_def noscriptWrapper_def Let_def

section \<open>Properties of up.ResponseDoc\<close>

text \<open>
  C7. The constructor tries the document, then the fragment, then the content with its
  target, and builds the root from the first path that yields one. It fails exactly
  when neither the document nor the fragment yields a root and no target selector was
  given (the target is missing or the empty string, which \<open>options.target || up.fail(...)\<close>
  treats alike); the failure is the error "must pass a { target } when passing
  { content }", which names the target. In every other case it returns a response
  document, whose root is a node; without any content that root is the element made for
  the target selector, with the empty markup as its inner HTML.
\<close>

theorem constructor_contract:
  "(\<forall>r. parseDocument d opts = Some r \<longrightarrow> constructor d opts = Inr (newDoc r)) \<and>
   (\<forall>r. parseDocument d opts = None \<and> parseFragment d opts = Some r \<longrightarrow>
        constructor d opts = Inr (newDoc r)) \<and>
   (parseDocument d opts = None \<and> parseFragment d opts = None \<and> targetGiven opts \<longrightarrow>
      (\<exists>r. parseContent d opts = Inr r \<and> constructor d opts = Inr (newDoc r))) \<and>
   (\<forall>t. parseDocument d opts = None \<and> parseFragment d opts = None \<and>
        content opts = None \<and> target opts = Some t \<and> t \<noteq> [] \<longrightarrow>
        constructor d opts
          = Inr (newDoc (setInnerHTML d (createFromSelector d t) (wrapHTML d [])))) \<and>
   ((\<exists>e. constructor d opts = Inl e) \<longleftrightarrow>
      parseDocument d opts = None \<and> parseFragment d opts = None \<and> \<not> targetGiven opts) \<and>
   (\<forall>e. constructor d opts = Inl e \<longrightarrow>
      e = Failure (''must pass a { '' @ ''target'' @ '' } when passing { content }'')) \<and>
   (\<not> (parseDocument d opts = None \<and> parseFragment d opts = None \<and> \<not> targetGiven opts) \<longrightarrow>
      (\<exists>rd. constructor d opts = Inr rd))"
proof -
  have pc: "parseContent d opts =
      (if targetGiven opts
       then Inr (case (case content opts of None \<Rightarrow> Html [] | Some c \<Rightarrow> c) of
                   Html html \<Rightarrow> setInnerHTML d (createFromSelector d (the (target opts)))
                                  (wrapHTML d html)
                 | Node n \<Rightarrow> appendChild d (createFromSelector d (the (target opts))) n)
       else Inl (Failure ''must pass a { target } when passing { content }''))"
    by (auto simp: parseContent_def targetGiven_def Let_def split: option.splits payload.splits)
  show ?thesis
    unfolding constructor_def pc
    by (auto split: option.splits simp: targetGiven_def)
qed

theorem constructor_contract_witness:
  "parseDocument exampleDom
     \<lparr>document = None, fragment = Some (Html []), content = None, target = None\<rparr> = None \<and>
   parseFragment exampleDom
     \<lparr>document = None, fragment = Some (Html []), content = None, target = None\<rparr> = None \<and>
   \<not> targetGiven
     (\<lparr>document = None, fragment = Some (Html []), content = None, target = None\<rparr>
        :: node options) \<and>
   constructor exampleDom
     \<lparr>document = None, fragment = Some (Html []), content = None, target = None\<rparr>
     = Inl (Failure ''must pass a { target } when passing { content }'') \<and>
   constructor exampleDom
     \<lparr>document = None, fragment = None, content = None, target = Some ''main''\<rparr>
     = Inr (newDoc (ElementNode ''main'' [])) \<and>
   constructor exampleDom
     \<lparr>document = Some (Html ''x''), fragment = None, content = None, target = None\<rparr>
     = Inr (newDoc (ElementNode ''html'' [TextNode ''x'']))"
proof -
  let ?o1 = "\<lparr>document = None, fragment = Some (Html []), content = None,
              target = None\<rparr> :: node options"
  let ?o2 = "\<lparr>document = None, fragment = None, content = None,
              target = Some ''main''\<rparr> :: node options"
  let ?o3 = "\<lparr>document = Some (Html ''x''), fragment = None, content = None,
              target = None\<rparr> :: node options"
  have d1: "parseDocument exampleDom ?o1 = None" and f1: "parseFragment exampleDom ?o1 = None"
    and t1: "\<not> targetGiven ?o1"
    by (simp_all add: parseDocument_def parseFragment_def parse_def wrapHTML_def
          targetGiven_def exampleDom_def)
  have d2: "parseDocument exampleDom ?o2 = None" and f2: "parseFragment exampleDom ?o2 = None"
    and c2: "content ?o2 = None" and t2: "target ?o2 = Some ''main''"
    by (simp_all add: parseDocument_def parseFragment_def parse_def)
  have e2: "setInnerHTML exampleDom (createFromSelector exampleDom ''main'')
              (wrapHTML exampleDom []) = ElementNode ''main'' []"
    by (simp add: wrapHTML_def exampleDom_def)
  have d3: "parseDocument exampleDom ?o3 = Some (ElementNode ''html'' [TextNode ''x''])"
    by (simp add: parseDocument_def parse_def wrapHTML_def exampleDom_def)
  from constructor_contract [of exampleDom ?o1] d1 f1 t1
  have r1: "constructor exampleDom ?o1
              = Inl (Failure ''must pass a { target } when passing { content }'')"
    by auto
  from constructor_contract [of exampleDom ?o2] d2 f2 c2 t2 e2
  have r2: "constructor exampleDom ?o2 = Inr (newDoc (ElementNode ''main'' []))"
    by auto
  from constructor_contract [of exampleDom ?o3] d3
  have r3: "constructor exampleDom ?o3 = Inr (newDoc (ElementNode ''html'' [TextNode ''x'']))"
    by blast
  from d1 f1 t1 r1 r2 r3 show ?thesis by blast
qed

text \<open>
  The constructor leaves the title unparsed. Once the title has been parsed,
  \<open>getTitle\<close> answers from the cache.
\<close>

lemma constructor_unparsed:
  "constructor d opts = Inr rd \<Longrightarrow> \<not> titleParsed rd \<and> title rd = None"
  by (auto simp: constructor_def newDoc_def split: option.splits sum.splits)

lemma getTitle_parsed: "titleParsed rd \<Longrightarrow> getTitle d rd = (title rd, rd)"
  by (simp add: getTitle_def)

lemma getTitles_parsed:
  "titleParsed rd \<Longrightarrow> getTitles ds rd = (replicate (length ds) (title rd), rd)"
  by (induction ds) (simp_all add: getTitle_parsed)

text \<open>
  C8. On a response document whose title has not been parsed yet (as the constructor
  leaves it), the first of any number of calls of \<open>getTitle\<close> queries the root once, and
  every call, the first and all later ones, returns the value found then, whatever the
  root would answer later: the count of queries stays at one more than before. This
  holds also when no title was found: the absent title is stored with the flag
  \<open>titleParsed\<close> set, which tells it from a title that has not been computed.
\<close>

theorem getTitle_memoized:
  assumes "\<not> titleParsed rd"
  shows "getTitles (d # ds) rd =
           (replicate (Suc (length ds))
              (map_option (textContent d) (querySelector d (root_node rd) ''head title'')),
            rd\<lparr>title := map_option (textContent d) (querySelector d (root_node rd) ''head title''),
               titleParsed := True,
               rootQueries := Suc (rootQueries rd)\<rparr>)"
proof -
  let ?q = "map_option (textContent d) (querySelector d (root_node rd) ''head title'')"
  let ?rd = "rd\<lparr>title := ?q, titleParsed := True, rootQueries := Suc (rootQueries rd)\<rparr>"
  have first: "getTitle d rd = (?q, ?rd)"
    using assms by (simp add: getTitle_def Let_def)
  have rest: "getTitles ds ?rd = (replicate (length ds) ?q, ?rd)"
    using getTitles_parsed [of ?rd ds] by simp
  show ?thesis
    by (simp add: first rest)
qed

theorem getTitle_memoized_witness:
  "\<not> titleParsed exampleDoc \<and>
   getTitles [exampleDom, exampleDom\<lparr>querySelector := \<lambda>n selector. Some (TextNode ''Late'')\<rparr>]
     exampleDoc
   = ([None, None], exampleDoc\<lparr>title := None, titleParsed := True, rootQueries := 1\<rparr>)"
proof -
  have n: "\<not> titleParsed exampleDoc"
    by (simp add: exampleDoc_def newDoc_def)
  have q: "map_option (textContent exampleDom)
             (querySelector exampleDom (root_node exampleDoc) ''head title'') = None"
    by (simp add: exampleDom_def)
  have z: "rootQueries exampleDoc = 0"
    by (simp add: exampleDoc_def newDoc_def)
  from getTitle_memoized [OF n, of exampleDom
      "[exampleDom\<lparr>querySelector := \<lambda>n selector. Some (TextNode ''Late'')\<rparr>]"] n q z
  show ?thesis by simp
qed

text \<open>
  C10. The noscript wrapper and the script stripper are applied to string payloads only.
  \<open>parse\<close> returns a node payload as it is, whatever the wrapper and the stripper do,
  and hands a string to the parser after wrapping and stripping it; \<open>parseContent\<close>
  appends a node content to the element made for the target as it is, and sets a string
  content as inner HTML after wrapping and stripping it. When the payload that the
  constructor uses is a node, the constructed document does not depend on the wrapper
  and the stripper at all.
\<close>

theorem sanitization_of_strings_only:
  "parse (d\<lparr>wrap := w, strip := s\<rparr>) (Some (Node n)) parseFn = Some n \<and>
   parse d (Some (Html html)) parseFn
     = parseFn (strip d scriptStripper (wrap d noscriptWrapper html)) \<and>
   (\<forall>t. target opts = Some t \<and> t \<noteq> [] \<and> content opts = Some (Node n) \<longrightarrow>
      parseContent (d\<lparr>wrap := w, strip := s\<rparr>) opts
        = Inr (appendChild d (createFromSelector d t) n)) \<and>
   (\<forall>t. target opts = Some t \<and> t \<noteq> [] \<and> content opts = Some (Html html) \<longrightarrow>
      parseContent d opts
        = Inr (setInnerHTML d (createFromSelector d t)
                 (strip d scriptStripper (wrap d noscriptWrapper html)))) \<and>
   (nodePayload opts \<longrightarrow> constructor (d\<lparr>wrap := w, strip := s\<rparr>) opts = constructor d opts)"
  by (auto simp: parse_def wrapHTML_def parseContent_def Let_def constructor_def
      parseDocument_def parseFragment_def nodePayload_def
      split: option.splits payload.splits)

theorem sanitization_of_strings_only_witness:
  "nodePayload \<lparr>document = None, fragment = None,
       content = Some (Node (ElementNode ''script'' [])), target = Some ''main''\<rparr> \<and>
   constructor (exampleDom\<lparr>wrap := \<lambda>wrapper html. [], strip := \<lambda>wrapper html. []\<rparr>)
     \<lparr>document = None, fragment = None,
      content = Some (Node (ElementNode ''script'' [])), target = Some ''main''\<rparr>
     = Inr (newDoc (ElementNode ''main'' [ElementNode ''script'' []])) \<and>
   constructor exampleDom
     \<lparr>document = None, fragment = None,
      content = Some (Html ''<script></script>''), target = Some ''main''\<rparr>
     = Inr (newDoc (ElementNode ''main'' []))"
proof -
  let ?o = "\<lparr>document = None, fragment = None,
       content = Some (Node (ElementNode ''script'' [])), target = Some ''main''\<rparr>"
  let ?h = "\<lparr>document = None, fragment = None,
       content = Some (Html ''<script></script>''), target = Some ''main''\<rparr> :: node options"
  have n: "nodePayload ?o" by (simp add: nodePayload_def)
  have c: "constructor exampleDom ?o
             = Inr (newDoc (ElementNode ''main'' [ElementNode ''script'' []]))"
    by (simp add: constructor_def parseDocument_def parseFragment_def parse_def
        parseContent_def exampleDom_def)
  have h: "constructor exampleDom ?h = Inr (newDoc (ElementNode ''main'' []))"
    by (simp add: constructor_def parseDocument_def parseFragment_def parse_def
        parseContent_def wrapHTML_def exampleDom_def)
  from sanitization_of_strings_only
    [where d = exampleDom and w = "\<lambda>wrapper html. []" and s = "\<lambda>wrapper html. []"
       and opts = ?o] n c h
  show ?thesis by simp
qed

section \<open>Properties of up.Change.OpenLayer\<close>

text \<open>
  What the state-changing steps do to the stack, to the layers that are closing and to
  the record of calls.
\<close>

lemma newEffects_append: "effects w' = effects w @ xs \<Longrightarrow> newEffects w w' = xs"
  by (simp add: newEffects_def)

lemma did_fields:
  "effects (did e w) = effects w @ [e]" "stack (did e w) = stack w"
  "closing (did e w) = closing w"
  by (simp_all add: did_def)

lemma peel_fields:
  "effects (peel b w) = effects w @ [Peel b]" "stack (peel b w) = stack w"
  "closing (peel b w) = closing w @ map layerId (liveChildren b w)"
  by (simp_all add: peel_def did_def)

lemma push_fields:
  "effects (push l w) = effects w @ [Push (layerId l)]" "stack (push l w) = stack w @ [l]"
  "closing (push l w) = closing w"
  by (simp_all add: push_def did_def)

lemma updateTop_fields:
  "effects (updateTop l w) = effects w" "stack (updateTop l w) = butlast (stack w) @ [l]"
  "closing (updateTop l w) = closing w"
  by (simp_all add: updateTop_def)

lemma handleHistory_fields:
  assumes "handleHistory a ch l c w = (ch', l', w')"
  shows "effects w' = effects w @ [SaveHistory (parent l), UpdateHistory]"
    and "stack w' = butlast (stack w) @ [l']"
    and "closing w' = closing w"
    and "layerId l' = layerId l"
  using assms
  by (auto simp: handleHistory_def Let_def did_fields updateTop_fields split: if_splits)

text \<open>
  The three ways in which \<open>execute\<close> ends: not applicable after its first call;
  aborted by the open event after three calls, with the stack untouched; or past the
  open event, where it peels the base layer, pushes the new layer and then makes no
  further call that changes the stack.
\<close>

lemma execute_cases:
  assumes "execute d a ch rd w = (res, rd', w')"
  shows "(res = Inl NotApplicable \<and> newEffects w w' = [firstEffect ch] \<and>
          stack w' = stack w \<and> closing w' = closing w \<and>
          (fst (chooseContent d ch rd w) = None \<or> baseLayerIsClosed a)) \<or>
         (res = Inl (Aborted ''Open event was prevented'') \<and> openDefaultPrevented a \<and>
          newEffects w w' = [firstEffect ch, Puts ''up.render()'', Emit ''up:layer:open''] \<and>
          stack w' = stack w \<and> closing w' = closing w) \<or>
         (\<not> openDefaultPrevented a \<and> \<not> baseLayerIsClosed a \<and>
          (\<exists>post l c. newEffects w w' =
              [firstEffect ch, Puts ''up.render()'', Emit ''up:layer:open'',
               Peel (baseLayer ch), Push (layerId l)] @ post \<and>
              (\<forall>e \<in> set post. \<not> stackEffect e \<and> \<not> contentEffect e) \<and>
              stack w' = stack w @ [l] \<and>
              closing w' = closing w @ map layerId (liveChildren (baseLayer ch) w) \<and>
              fst (chooseContent d ch rd w) = Some c \<and>
              ((\<exists>message. res = Inl (Aborted message)) \<or>
               res = Inr \<lparr>layer = l, fragments = [finalizeElement d c]\<rparr>)))"
proof -
  obtain c w1 where sel: "chooseContent d ch rd w = (c, w1)"
    by fastforce
  have w1: "w1 = did (firstEffect ch) w"
    using sel by (simp add: chooseContent_def firstEffect_def split: if_splits)
  have ex: "execute d a ch rd w =
     (case c of
           None \<Rightarrow> (Inl NotApplicable, rd, w1)
         | Some content' \<Rightarrow>
             if baseLayerIsClosed a then (Inl NotApplicable, rd, w1)
             else
               (let w = did (Puts ''up.render()'') w1;
                    (t, responseDoc) = getTitle d rd;
                    ch = ch\<lparr>title_opt := improveHistoryValue a (title_opt ch) t\<rparr>;
                    l = buildLayer a ch;
                    w = did (Emit ''up:layer:open'') w
                in if openDefaultPrevented a
                   then (Inl (Aborted ''Open event was prevented''), responseDoc, w)
                   else
                     (let w = peel (baseLayer ch) w;
                          w = push l w;
                          w = did (CreateElements content') w;
                          w = did SetupHandlers w;
                          (ch, l, w) = handleHistory a ch l content' w;
                          w = did (SetSource content' (source ch)) w;
                          w = did (FinalizeElement content') w;
                          content' = finalizeElement d content';
                          w = did (Hello (layerId l)) w;
                          w = did HandleLayerChangeRequests w
                      in case layerChangeRequestsAbort a of
                           Some message \<Rightarrow> (Inl (Aborted message), responseDoc, w)
                         | None \<Rightarrow>
                             (let w = did (ProcessScroll (scroll ch)) w;
                                  w = did StartOpenAnimation w;
                                  l = l\<lparr>opening_flag := False\<rparr>;
                                  w = updateTop l w;
                                  w = did (EmitOnLayer ''up:layer:opened'') w
                              in case layerClosedAfterOpened a of
                                   Some message \<Rightarrow> (Inl (Aborted message), responseDoc, w)
                                 | None \<Rightarrow>
                                     (Inr \<lparr>layer = l, fragments = [content']\<rparr>,
                                      responseDoc, w)))))"
    unfolding execute_def sel by simp
  show ?thesis
  proof (cases "c = None \<or> baseLayerIsClosed a")
    case True
    with assms ex have "res = Inl NotApplicable" "w' = w1"
      by (auto split: option.splits)
    with True show ?thesis
      by (simp add: sel w1 did_fields newEffects_def)
  next
    case False
    then obtain content' where c: "c = Some content'" and nc: "\<not> baseLayerIsClosed a"
      by auto
    obtain t rd1 where gt: "getTitle d rd = (t, rd1)" by fastforce
    define ch1 where "ch1 = ch\<lparr>title_opt := improveHistoryValue a (title_opt ch) t\<rparr>"
    define l1 where "l1 = buildLayer a ch1"
    define w3 where "w3 = did (Emit ''up:layer:open'') (did (Puts ''up.render()'') w1)"
    have b1: "baseLayer ch1 = baseLayer ch" by (simp add: ch1_def)
    show ?thesis
    proof (cases "openDefaultPrevented a")
      case True
      with assms ex c nc gt have "res = Inl (Aborted ''Open event was prevented'')" "w' = w3"
        by (simp_all add: Let_def w3_def)
      with True show ?thesis
        by (simp add: w3_def w1 did_fields newEffects_def)
    next
      case np: False
      define w5 where "w5 = did SetupHandlers (did (CreateElements content')
                              (push l1 (peel (baseLayer ch) w3)))"
      obtain ch2 l2 w6 where hh: "handleHistory a ch1 l1 content' w5 = (ch2, l2, w6)"
        by (metis prod_cases3)
      define w10 where "w10 = did HandleLayerChangeRequests (did (Hello (layerId l2))
                (did (FinalizeElement content') (did (SetSource content' (source ch2)) w6)))"
      define w12 where "w12 = did (EmitOnLayer ''up:layer:opened'')
                (updateTop (l2\<lparr>opening_flag := False\<rparr>)
                   (did StartOpenAnimation (did (ProcessScroll (scroll ch2)) w10)))"
      have w': "(w' = w10 \<and> (\<exists>message. res = Inl (Aborted message))) \<or>
                (w' = w12 \<and> ((\<exists>message. res = Inl (Aborted message)) \<or>
                   res = Inr \<lparr>layer = l2\<lparr>opening_flag := False\<rparr>,
                              fragments = [finalizeElement d content']\<rparr>))"
        using assms ex c nc gt np hh
        by (auto simp: Let_def w3_def [symmetric] ch1_def [symmetric] l1_def [symmetric]
            b1 w5_def [symmetric] w10_def [symmetric] w12_def [symmetric]
            split: option.splits)
      have e5: "effects w5 = effects w @
          [firstEffect ch, Puts ''up.render()'', Emit ''up:layer:open'',
           Peel (baseLayer ch), Push (layerId l1), CreateElements content', SetupHandlers]"
        and s5: "stack w5 = stack w @ [l1]"
        and c5: "closing w5 = closing w @ map layerId (liveChildren (baseLayer ch) w)"
        by (simp_all add: w5_def w3_def w1 did_fields peel_fields push_fields
              liveChildren_def)
      note h = handleHistory_fields [OF hh]
      have e10: "effects w10 = effects w @
          [firstEffect ch, Puts ''up.render()'', Emit ''up:layer:open'',
           Peel (baseLayer ch), Push (layerId l2)] @
          [CreateElements content', SetupHandlers, SaveHistory (parent l1), UpdateHistory,
           SetSource content' (source ch2), FinalizeElement content', Hello (layerId l2),
           HandleLayerChangeRequests]"
        and s10: "stack w10 = stack w @ [l2]"
        and c10: "closing w10 = closing w @ map layerId (liveChildren (baseLayer ch) w)"
        by (simp_all add: w10_def did_fields h e5 s5 c5)
      have e12: "effects w12 = effects w @
          [firstEffect ch, Puts ''up.render()'', Emit ''up:layer:open'',
           Peel (baseLayer ch), Push (layerId (l2\<lparr>opening_flag := False\<rparr>))] @
          [CreateElements content', SetupHandlers, SaveHistory (parent l1), UpdateHistory,
           SetSource content' (source ch2), FinalizeElement content', Hello (layerId l2),
           HandleLayerChangeRequests, ProcessScroll (scroll ch2), StartOpenAnimation,
           EmitOnLayer ''up:layer:opened'']"
        and s12: "stack w12 = stack w @ [l2\<lparr>opening_flag := False\<rparr>]"
        and c12: "closing w12 = closing w @ map layerId (liveChildren (baseLayer ch) w)"
        by (simp_all add: w12_def did_fields updateTop_fields e10 s10 c10)
      have cc: "fst (chooseContent d ch rd w) = Some content'"
        by (simp add: sel c)
      from w' show ?thesis
      proof
        assume r: "w' = w10 \<and> (\<exists>message. res = Inl (Aborted message))"
        then have "newEffects w w' = [firstEffect ch, Puts ''up.render()'', Emit ''up:layer:open'',
           Peel (baseLayer ch), Push (layerId l2)] @
          [CreateElements content', SetupHandlers, SaveHistory (parent l1), UpdateHistory,
           SetSource content' (source ch2), FinalizeElement content', Hello (layerId l2),
           HandleLayerChangeRequests]"
          using e10 by (intro newEffects_append) simp
        moreover have "stack w' = stack w @ [l2]" using r s10 by simp
        moreover have "closing w' = closing w @ map layerId (liveChildren (baseLayer ch) w)"
          using r c10 by simp
        moreover have "(\<exists>message. res = Inl (Aborted message)) \<or>
               res = Inr \<lparr>layer = l2, fragments = [finalizeElement d content']\<rparr>"
          using r by simp
        moreover have "\<forall>e \<in> set [CreateElements content', SetupHandlers,
           SaveHistory (parent l1), UpdateHistory,
           SetSource content' (source ch2), FinalizeElement content', Hello (layerId l2),
           HandleLayerChangeRequests]. \<not> stackEffect e \<and> \<not> contentEffect e"
          by (simp add: stackEffect_def contentEffect_def)
        ultimately show ?thesis
          using np nc cc by blast
      next
        assume r: "w' = w12 \<and> ((\<exists>message. res = Inl (Aborted message)) \<or>
                   res = Inr \<lparr>layer = l2\<lparr>opening_flag := False\<rparr>,
                              fragments = [finalizeElement d content']\<rparr>)"
        then have "newEffects w w' = [firstEffect ch, Puts ''up.render()'', Emit ''up:layer:open'',
           Peel (baseLayer ch), Push (layerId (l2\<lparr>opening_flag := False\<rparr>))] @
          [CreateElements content', SetupHandlers, SaveHistory (parent l1), UpdateHistory,
           SetSource content' (source ch2), FinalizeElement content', Hello (layerId l2),
           HandleLayerChangeRequests, ProcessScroll (scroll ch2), StartOpenAnimation,
           EmitOnLayer ''up:layer:opened'']"
          using e12 by (intro newEffects_append) simp
        moreover have "stack w' = stack w @ [l2\<lparr>opening_flag := False\<rparr>]"
          using r s12 by simp
        moreover have "closing w' = closing w @ map layerId (liveChildren (baseLayer ch) w)"
          using r c12 by simp
        moreover have "(\<exists>message. res = Inl (Aborted message)) \<or>
               res = Inr \<lparr>layer = l2\<lparr>opening_flag := False\<rparr>,
                          fragments = [finalizeElement d content']\<rparr>"
          using r by simp
        moreover have "\<forall>e \<in> set [CreateElements content', SetupHandlers,
           SaveHistory (parent l1), UpdateHistory,
           SetSource content' (source ch2), FinalizeElement content', Hello (layerId l2),
           HandleLayerChangeRequests, ProcessScroll (scroll ch2), StartOpenAnimation,
           EmitOnLayer ''up:layer:opened'']. \<not> stackEffect e \<and> \<not> contentEffect e"
          by (simp add: stackEffect_def contentEffect_def)
        ultimately show ?thesis
          using np nc cc by blast
      qed
    qed
  qed
qed

text \<open>
  C1. In every run of \<open>execute\<close> in which the event \<open>up:layer:open\<close> is emitted and a
  listener prevents it, \<open>execute\<close> fails with the error aborted ("Open event was
  prevented") and the layer stack is as it was before the call: the same layers, so the
  same length, no layer has begun to close, and the run has called neither \<open>peel\<close> nor
  \<open>push\<close>.
\<close>

theorem open_prevented_leaves_stack:
  assumes "execute d a ch rd w = (res, rd', w')"
    and "openDefaultPrevented a"
    and "Emit ''up:layer:open'' \<in> set (newEffects w w')"
  shows "res = Inl (Aborted ''Open event was prevented'') \<and>
         stack w' = stack w \<and> length (stack w') = length (stack w) \<and>
         closing w' = closing w \<and>
         (\<forall>e \<in> set (newEffects w w'). \<not> stackEffect e)"
proof -
  from execute_cases [OF assms(1)] assms(2)
  consider
    (na) "newEffects w w' = [firstEffect ch]"
  | (ab) "res = Inl (Aborted ''Open event was prevented'')"
      "newEffects w w' = [firstEffect ch, Puts ''up.render()'', Emit ''up:layer:open'']"
      "stack w' = stack w" "closing w' = closing w"
    by blast
  then show ?thesis
  proof cases
    case na
    with assms(3) have False by (simp add: firstEffect_def split: if_splits)
    then show ?thesis ..
  next
    case ab
    then show ?thesis by (simp add: stackEffect_def firstEffect_def)
  qed
qed

theorem open_prevented_leaves_stack_witness:
  "openDefaultPrevented (exampleAnswers False True) \<and>
   execute exampleDom (exampleAnswers False True) (exampleChange ''main'') exampleDoc exampleWorld
   = (Inl (Aborted ''Open event was prevented''),
      exampleDoc\<lparr>titleParsed := True, rootQueries := 1\<rparr>,
      exampleWorld\<lparr>effects := [Select ''main'', Puts ''up.render()'', Emit ''up:layer:open'']\<rparr>) \<and>
   Emit ''up:layer:open''
     \<in> set (newEffects exampleWorld
          (exampleWorld\<lparr>effects := [Select ''main'', Puts ''up.render()'', Emit ''up:layer:open'']\<rparr>)) \<and>
   length (stack (exampleWorld\<lparr>effects :=
       [Select ''main'', Puts ''up.render()'', Emit ''up:layer:open'']\<rparr>)) = length (stack exampleWorld)"
proof -
  let ?w = "exampleWorld\<lparr>effects := [Select ''main'', Puts ''up.render()'', Emit ''up:layer:open'']\<rparr>"
  have run: "execute exampleDom (exampleAnswers False True) (exampleChange ''main'') exampleDoc
               exampleWorld
             = (Inl (Aborted ''Open event was prevented''),
                exampleDoc\<lparr>titleParsed := True, rootQueries := 1\<rparr>, ?w)"
    by (simp add: execute_defs example_layer_defs)
  have p: "openDefaultPrevented (exampleAnswers False True)"
    by (simp add: exampleAnswers_def)
  have e: "Emit ''up:layer:open'' \<in> set (newEffects exampleWorld ?w)"
    by (simp add: newEffects_def exampleWorld_def)
  from open_prevented_leaves_stack [OF run p e] run p e show ?thesis by blast
qed

text \<open>
  C2. In every run of \<open>execute\<close> that pushes a layer, the calls of the run are: calls
  that do not touch the stack, then \<open>peel\<close> on the base layer, then at once the \<open>push\<close>
  of the new layer, then calls that do not touch the stack. The new layer is the top
  of the stack, above the layers that were there. Every layer that was a child of the
  base layer before the call has begun to close, so the base layer has at most one live
  child after the call.
\<close>

theorem peel_before_push:
  assumes "execute d a ch rd w = (res, rd', w')"
    and "Push k \<in> set (newEffects w w')"
  shows "(\<exists>pre post. newEffects w w' = pre @ [Peel (baseLayer ch), Push k] @ post \<and>
            (\<forall>e \<in> set (pre @ post). \<not> stackEffect e)) \<and>
         (\<exists>l. layerId l = k \<and> stack w' = stack w @ [l]) \<and>
         (\<forall>c \<in> set (stack w). parent c = Some (baseLayer ch) \<longrightarrow> layerId c \<in> set (closing w')) \<and>
         length (liveChildren (baseLayer ch) w') \<le> 1"
proof -
  let ?pre = "[firstEffect ch, Puts ''up.render()'', Emit ''up:layer:open'']"
  have nf: "\<not> stackEffect (firstEffect ch)"
    by (simp add: firstEffect_def stackEffect_def)
  have no_push: "Push k \<noteq> firstEffect ch"
    by (simp add: firstEffect_def)
  from execute_cases [OF assms(1)] assms(2) no_push
  obtain post l where
    ne: "newEffects w w' = ?pre @ [Peel (baseLayer ch), Push (layerId l)] @ post"
    and post: "\<forall>e \<in> set post. \<not> stackEffect e \<and> \<not> contentEffect e"
    and st: "stack w' = stack w @ [l]"
    and cl: "closing w' = closing w @ map layerId (liveChildren (baseLayer ch) w)"
    by auto
  have "Push k \<notin> set post" using post by (auto simp: stackEffect_def)
  with assms(2) ne no_push have k: "layerId l = k" by auto
  have order: "\<exists>pre post. newEffects w w' = pre @ [Peel (baseLayer ch), Push k] @ post \<and>
            (\<forall>e \<in> set (pre @ post). \<not> stackEffect e)"
  proof (intro exI conjI)
    show "newEffects w w' = ?pre @ [Peel (baseLayer ch), Push k] @ post"
      using ne k by simp
    show "\<forall>e \<in> set (?pre @ post). \<not> stackEffect e"
      using post nf by (simp add: stackEffect_def)
  qed
  have children: "\<forall>c \<in> set (stack w). parent c = Some (baseLayer ch) \<longrightarrow> layerId c \<in> set (closing w')"
    unfolding cl by (auto simp: liveChildren_def)
  have "filter (\<lambda>l. parent l = Some (baseLayer ch) \<and> layerId l \<notin> set (closing w')) (stack w) = []"
    using children by (auto simp: filter_empty_conv)
  then have live: "length (liveChildren (baseLayer ch) w') \<le> 1"
    by (simp add: liveChildren_def st)
  from order k st children live show ?thesis by blast
qed

theorem peel_before_push_witness:
  "Push 2 \<in> set (newEffects exampleWorld
      (snd (snd (execute exampleDom (exampleAnswers False False) (exampleChange ''main'')
                   exampleDoc exampleWorld)))) \<and>
   newEffects exampleWorld
      (snd (snd (execute exampleDom (exampleAnswers False False) (exampleChange ''main'')
                   exampleDoc exampleWorld)))
     = [Select ''main'', Puts ''up.render()'', Emit ''up:layer:open''] @ [Peel 0, Push 2] @
       [CreateElements (ElementNode ''main'' []), SetupHandlers, SaveHistory (Some 0),
        UpdateHistory, SetSource (ElementNode ''main'' []) None,
        FinalizeElement (ElementNode ''main'' []), Hello 2, HandleLayerChangeRequests,
        ProcessScroll None, StartOpenAnimation, EmitOnLayer ''up:layer:opened''] \<and>
   closing (snd (snd (execute exampleDom (exampleAnswers False False) (exampleChange ''main'')
                   exampleDoc exampleWorld))) = [1] \<and>
   length (liveChildren (baseLayer (exampleChange ''main''))
      (snd (snd (execute exampleDom (exampleAnswers False False) (exampleChange ''main'')
                   exampleDoc exampleWorld)))) \<le> 1"
proof -
  let ?run = "execute exampleDom (exampleAnswers False False) (exampleChange ''main'')
                exampleDoc exampleWorld"
  have run: "?run = (fst ?run, fst (snd ?run), snd (snd ?run))" by simp
  have effs: "newEffects exampleWorld (snd (snd ?run))
     = [Select ''main'', Puts ''up.render()'', Emit ''up:layer:open''] @ [Peel 0, Push 2] @
       [CreateElements (ElementNode ''main'' []), SetupHandlers, SaveHistory (Some 0),
        UpdateHistory, SetSource (ElementNode ''main'' []) None,
        FinalizeElement (ElementNode ''main'' []), Hello 2, HandleLayerChangeRequests,
        ProcessScroll None, StartOpenAnimation, EmitOnLayer ''up:layer:opened'']"
    by (simp add: execute_defs example_layer_defs newEffects_def)
  have cl: "closing (snd (snd ?run)) = [1]"
    by (simp add: execute_defs example_layer_defs)
  have p: "Push 2 \<in> set (newEffects exampleWorld (snd (snd ?run)))"
    unfolding effs by simp
  from peel_before_push [OF run p] p effs cl show ?thesis by blast
qed

text \<open>
  C9. When the target is the string \<open>:none\<close>, \<open>execute\<close> does not select from the
  response document (it makes no \<open>select\<close> call, and its outcome does not depend on what
  a selection would find) but creates an \<open>up-none\<close> element; on success that element,
  finalized, is the one fragment of the result. The run fails as not applicable exactly
  when the base layer is closed.
\<close>

theorem none_target_is_synthesized:
  assumes "target_opt ch = '':none''"
    and "execute d a ch rd w = (res, rd', w')"
  shows "(res = Inl NotApplicable \<longleftrightarrow> baseLayerIsClosed a) \<and>
         (\<forall>selector. Select selector \<notin> set (newEffects w w')) \<and>
         CreateElement ''up-none'' \<in> set (newEffects w w') \<and>
         (\<forall>r. res = Inr r \<longrightarrow> fragments r = [finalizeElement d (createElement d ''up-none'')]) \<and>
         (\<forall>f. execute (d\<lparr>subtree := f\<rparr>) a ch rd w = execute d a ch rd w)"
proof -
  have cc: "fst (chooseContent d ch rd w) = Some (createElement d ''up-none'')"
    using assms(1) by (simp add: chooseContent_def)
  have fe: "firstEffect ch = CreateElement ''up-none''"
    using assms(1) by (simp add: firstEffect_def)
  have closed: "baseLayerIsClosed a \<Longrightarrow> res = Inl NotApplicable"
    using assms by (simp add: execute_def chooseContent_def)
  have indep: "execute (d\<lparr>subtree := f\<rparr>) a ch rd w = execute d a ch rd w" for f
  proof -
    have g: "getTitle (d\<lparr>subtree := f\<rparr>) = getTitle d"
      by (simp add: getTitle_def fun_eq_iff)
    have z: "finalizeElement (d\<lparr>subtree := f\<rparr>) = finalizeElement d"
      by (simp add: finalizeElement_def fun_eq_iff)
    have c: "chooseContent (d\<lparr>subtree := f\<rparr>) ch rd w = chooseContent d ch rd w"
      using assms(1) by (simp add: chooseContent_def)
    show ?thesis
      by (simp only: execute_def g z c)
  qed
  from execute_cases [OF assms(2)] cc fe
  consider
    (na) "res = Inl NotApplicable" "baseLayerIsClosed a"
      "newEffects w w' = [CreateElement ''up-none'']"
  | (ab) "res = Inl (Aborted ''Open event was prevented'')"
      "newEffects w w' = [CreateElement ''up-none'', Puts ''up.render()'', Emit ''up:layer:open'']"
  | (ok) post l where "\<not> baseLayerIsClosed a"
      "newEffects w w' = [CreateElement ''up-none'', Puts ''up.render()'', Emit ''up:layer:open'',
               Peel (baseLayer ch), Push (layerId l)] @ post"
      "\<forall>e \<in> set post. \<not> contentEffect e"
      "(\<exists>message. res = Inl (Aborted message)) \<or>
       res = Inr \<lparr>layer = l, fragments = [finalizeElement d (createElement d ''up-none'')]\<rparr>"
    by auto
  then show ?thesis
  proof cases
    case na
    with indep show ?thesis by simp
  next
    case ab
    with closed indep show ?thesis by auto
  next
    case ok
    have "Select selector \<notin> set (newEffects w w')" for selector
      using ok(2,3) by (auto simp: contentEffect_def)
    with ok closed indep show ?thesis by auto
  qed
qed

theorem none_target_is_synthesized_witness:
  "target_opt (exampleChange '':none'') = '':none'' \<and>
   fst (execute exampleDom (exampleAnswers False False) (exampleChange '':none'')
          exampleDoc exampleWorld)
     = Inr \<lparr>layer = \<lparr>layerId = 2, mode = ''modal'', parent = Some 0, opening_flag = False,
                       historyVisible = Visible True\<rparr>,
            fragments = [ElementNode ''up-none'' []]\<rparr> \<and>
   select exampleDom exampleDoc '':none'' = None \<and>
   fst (execute exampleDom (exampleAnswers True False) (exampleChange '':none'')
          exampleDoc exampleWorld) = Inl NotApplicable \<and>
   (\<forall>selector. Select selector \<notin> set (newEffects exampleWorld
      (snd (snd (execute exampleDom (exampleAnswers False False) (exampleChange '':none'')
                   exampleDoc exampleWorld)))))"
proof -
  let ?run = "execute exampleDom (exampleAnswers False False) (exampleChange '':none'')
                exampleDoc exampleWorld"
  let ?closed = "execute exampleDom (exampleAnswers True False) (exampleChange '':none'')
                exampleDoc exampleWorld"
  have t: "target_opt (exampleChange '':none'') = '':none''"
    by (simp add: exampleChange_def)
  have run: "?run = (fst ?run, fst (snd ?run), snd (snd ?run))" by simp
  have closed: "?closed = (fst ?closed, fst (snd ?closed), snd (snd ?closed))" by simp
  have res: "fst ?run
     = Inr \<lparr>layer = \<lparr>layerId = 2, mode = ''modal'', parent = Some 0, opening_flag = False,
                       historyVisible = Visible True\<rparr>,
            fragments = [ElementNode ''up-none'' []]\<rparr>"
    by (simp add: execute_defs example_layer_defs)
  have sel: "select exampleDom exampleDoc '':none'' = None"
    by (simp add: select_def example_layer_defs)
  have c: "baseLayerIsClosed (exampleAnswers True False)"
    by (simp add: exampleAnswers_def)
  from none_target_is_synthesized [OF t run] none_target_is_synthesized [OF t closed]
    t res sel c
  show ?thesis by blast
qed

end
